theory Spec2Isabelle
  imports Main "HOL-Library.Word"
begin

section \<open>The TCP transport client of openvpn/transport/client/tcpcli.hpp\<close>

text \<open>
  The class \<open>TCPTransport::Client\<close> is embedded as a record of its data members and one
  function per member function. The objects the client talks to but does not implement
  (the boost resolver, the parent, the stats sink, the link) are outside
  \<open>tcpcli.hpp\<close>: every call on one of them is recorded, in program order, as an
  \<open>event\<close> of the list each function returns beside the new client state.
\<close>

subsection \<open>Values exchanged with the collaborators\<close>

type_synonym buffer = "8 word list"

text \<open>\<open>boost::asio::ip::address\<close> and \<open>tcp::endpoint\<close> (an address and a port).\<close>

datatype asio_address = Address_v4 "32 word" | Address_v6 "128 word"

record endpoint =
  ep_address :: asio_address
  ep_port :: "16 word"

text \<open>A default-constructed boost endpoint is the IPv4 any-address with port 0.\<close>

definition default_endpoint :: endpoint where
  "default_endpoint = \<lparr>ep_address = Address_v4 0, ep_port = 0\<rparr>"

text \<open>\<open>boost::system::error_code\<close>: \<open>!error\<close> holds exactly when the value is 0.\<close>

record error_code =
  ec_value :: int
  ec_category :: string

definition ec_failed :: "error_code \<Rightarrow> bool" where
  "ec_failed error = (ec_value error \<noteq> 0)"

text \<open>The two exception classes declared with \<open>OPENVPN_EXCEPTION\<close>, with their message.\<close>

datatype exn = Tcp_transport_resolve_error string | Tcp_transport_error string

datatype stats_counter = RESOLVE_ERROR

subsection \<open>ClientConfig\<close>

text \<open>
  \<open>frame\<close> and \<open>stats\<close> are intrusive pointers to objects that live outside the
  client; they are kept as handles.
\<close>

record client_config =
  server_host :: string
  server_port :: string
  send_queue_max_size :: nat
  free_list_max_size :: nat
  frame :: nat
  stats :: nat

text \<open>
  The arguments of the \<open>LinkImpl\<close> constructor that vary: the endpoint, the two bounds
  and the two pointers of the configuration. (\<open>io_service\<close>, \<open>this\<close>,
  \<open>REMOTE_CONNECT\<close> and \<open>false\<close> are the same in every call.)
\<close>

record link_args =
  la_endpoint :: endpoint
  la_send_queue_max_size :: nat
  la_free_list_max_size :: nat
  la_frame :: nat
  la_stats :: nat

subsection \<open>Events: calls on the collaborators\<close>

datatype event =
    Resolver_async_resolve string string
  | Resolver_cancel
  | Stats_error stats_counter
  | Link_new link_args
  | Link_start
  | Link_stop
  | Link_release
  | Link_send buffer
  | Transport_connected
  | Transport_recv buffer
  | Transport_error exn

definition is_parent_event :: "event \<Rightarrow> bool" where
  "is_parent_event e =
     (case e of Transport_connected \<Rightarrow> True | Transport_recv b \<Rightarrow> True
      | Transport_error x \<Rightarrow> True | _ \<Rightarrow> False)"

subsection \<open>Collaborators whose code is not in tcpcli.hpp\<close>

text \<open>
  The link (\<open>openvpn/transport/tcplink.hpp\<close>), the stream output of the boost types
  and \<open>IP::Addr::from_asio\<close> are taken as parameters: \<open>'l\<close> is the state of a link,
  \<open>'ip\<close> the type \<open>IP::Addr\<close>. \<open>link_send\<close> receives the buffer by mutable
  reference and so also returns what the call leaves in it.
\<close>

record ('l, 'ip) collab =
  link_new :: "link_args \<Rightarrow> 'l"
  link_start :: "'l \<Rightarrow> 'l"
  link_send :: "'l \<Rightarrow> buffer \<Rightarrow> bool \<times> 'l \<times> buffer"
  endpoint_render :: "endpoint \<Rightarrow> string"
  error_code_render :: "error_code \<Rightarrow> string"
  from_asio :: "asio_address \<Rightarrow> 'ip"

subsection \<open>Client\<close>

text \<open>
  The data members of \<open>Client\<close>. \<open>impl\<close> is the intrusive pointer to the link
  (\<open>None\<close> when null). \<open>io_service\<close> and \<open>resolver\<close> are boost objects: calls on the
  resolver appear as events.
\<close>

record 'l client =
  config :: client_config
  parent :: nat
  impl :: "'l option"
  server_endpoint :: endpoint
  halt :: bool

text \<open>The constructor, as called by \<open>ClientConfig::new_client_obj\<close>.\<close>

definition new_client_obj :: "client_config \<Rightarrow> nat \<Rightarrow> 'l client" where
  "new_client_obj config_arg parent_arg =
     \<lparr>config = config_arg, parent = parent_arg, impl = None,
      server_endpoint = default_endpoint, halt = False\<rparr>"

definition start :: "'l client \<Rightarrow> event list \<times> 'l client" where
  "start c =
     (if impl c = None
      then ([Resolver_async_resolve (server_host (config c)) (server_port (config c))],
            c\<lparr>halt := False\<rparr>)
      else ([], c))"

definition server_endpoint_render :: "('l, 'ip) collab \<Rightarrow> 'l client \<Rightarrow> string" where
  "server_endpoint_render E c = ''TCP '' @ endpoint_render E (server_endpoint c)"

definition server_endpoint_addr :: "('l, 'ip) collab \<Rightarrow> 'l client \<Rightarrow> 'ip" where
  "server_endpoint_addr E c = from_asio E (ep_address (server_endpoint c))"

text \<open>
  The private member \<open>stop_\<close> (a name cannot end in an underscore here, hence
  \<open>stop_priv\<close>): \<open>impl->stop()\<close> and \<open>impl.reset()\<close> when the link is there, then
  \<open>resolver.cancel()\<close> and \<open>halt = true\<close>.
\<close>

definition stop_priv :: "'l client \<Rightarrow> event list \<times> 'l client" where
  "stop_priv c =
     (let (ev, c1) = (case impl c of
                        Some l \<Rightarrow> ([Link_stop, Link_release], c\<lparr>impl := None\<rparr>)
                      | None \<Rightarrow> ([], c))
      in (ev @ [Resolver_cancel], c1\<lparr>halt := True\<rparr>))"

definition stop :: "'l client \<Rightarrow> event list \<times> 'l client" where
  "stop c = stop_priv c"

text \<open>The body of the destructor \<open>~Client\<close>.\<close>

definition destroy :: "'l client \<Rightarrow> event list \<times> 'l client" where
  "destroy c = stop_priv c"

subsection \<open>Sending\<close>

text \<open>
  Buffers are passed by reference, so the two send functions work on a store of buffers:
  an address is an index of the list. \<open>impl_send\<close> is the call \<open>impl->send(buf)\<close>:
  the link sees the buffer at \<open>buf\<close> and may overwrite it.
\<close>

type_synonym heap = "buffer list"

definition impl_send ::
  "('l, 'ip) collab \<Rightarrow> 'l \<Rightarrow> nat \<Rightarrow> heap \<Rightarrow> bool \<times> event list \<times> 'l \<times> heap" where
  "impl_send E l buf h =
     (let (r, l', b') = link_send E l (h ! buf)
      in (r, [Link_send (h ! buf)], l', h[buf := b']))"

text \<open>
  \<open>send_const\<close>: the local \<open>BufferAllocated buf(cbuf, 0)\<close> is a new buffer holding a
  copy of \<open>cbuf\<close>; it is allocated at the end of the store and gone when the function
  returns.
\<close>

definition send_const ::
  "('l, 'ip) collab \<Rightarrow> nat \<Rightarrow> 'l client \<Rightarrow> heap \<Rightarrow> bool \<times> event list \<times> 'l client \<times> heap" where
  "send_const E cbuf c h =
     (case impl c of
        Some l \<Rightarrow>
          (let buf = length h;
               h1 = h @ [h ! cbuf];
               (r, ev, l', h2) = impl_send E l buf h1
           in (r, ev, c\<lparr>impl := Some l'\<rparr>, take buf h2))
      | None \<Rightarrow> (False, [], c, h))"

definition send ::
  "('l, 'ip) collab \<Rightarrow> nat \<Rightarrow> 'l client \<Rightarrow> heap \<Rightarrow> bool \<times> event list \<times> 'l client \<times> heap" where
  "send E buf c h =
     (case impl c of
        Some l \<Rightarrow>
          (let (r, ev, l', h') = impl_send E l buf h
           in (r, ev, c\<lparr>impl := Some l'\<rparr>, h'))
      | None \<Rightarrow> (False, [], c, h))"

definition transport_send_const ::
  "('l, 'ip) collab \<Rightarrow> nat \<Rightarrow> 'l client \<Rightarrow> heap \<Rightarrow> bool \<times> event list \<times> 'l client \<times> heap" where
  "transport_send_const E buf c h = send_const E buf c h"

definition transport_send ::
  "('l, 'ip) collab \<Rightarrow> nat \<Rightarrow> 'l client \<Rightarrow> heap \<Rightarrow> bool \<times> event list \<times> 'l client \<times> heap" where
  "transport_send E buf c h = send E buf c h"

subsection \<open>Callbacks of the link and of the resolver\<close>

definition tcp_read_handler :: "buffer \<Rightarrow> 'l client \<Rightarrow> event list \<times> 'l client" where
  "tcp_read_handler buf c = ([Transport_recv buf], c)"

definition tcp_error_handler :: "string \<Rightarrow> 'l client \<Rightarrow> event list \<times> 'l client" where
  "tcp_error_handler error c =
     (let os = ''Transport error on '' @ [CHR 0x27] @ server_host (config c) @ '': '' @ error;
          (ev, c') = stop c;
          err = Tcp_transport_error os
      in (ev @ [Transport_error err], c'))"

text \<open>
  The private member \<open>post_start_\<close>, here \<open>post_start_priv\<close>: the resolver's iterator is the list of the endpoints it stands before.
  Dereferencing the end iterator is undefined in C++; the model returns \<open>None\<close> there.
  \<open>impl.reset(new LinkImpl(...))\<close> constructs the link first and then drops the pointer
  held before, if there was one.
\<close>

definition post_start_priv ::
  "('l, 'ip) collab \<Rightarrow> error_code \<Rightarrow> endpoint list \<Rightarrow> 'l client
     \<Rightarrow> (event list \<times> 'l client) option" where
  "post_start_priv E error endpoint_iterator c =
     (if \<not> halt c then
        (if \<not> ec_failed error then
           (case endpoint_iterator of
              [] \<Rightarrow> None
            | ep # rest \<Rightarrow>
                (let c1 = c\<lparr>server_endpoint := ep\<rparr>;
                     args = \<lparr>la_endpoint = server_endpoint c1,
                             la_send_queue_max_size = send_queue_max_size (config c1),
                             la_free_list_max_size = free_list_max_size (config c1),
                             la_frame = frame (config c1),
                             la_stats = stats (config c1)\<rparr>;
                     released = (case impl c1 of Some old \<Rightarrow> [Link_release] | None \<Rightarrow> []);
                     c2 = c1\<lparr>impl := Some (link_new E args)\<rparr>;
                     c3 = c2\<lparr>impl := map_option (link_start E) (impl c2)\<rparr>
                 in Some ([Link_new args] @ released @ [Link_start, Transport_connected], c3)))
         else
           (let os = ''DNS resolve error on '' @ [CHR 0x27] @ server_host (config c)
                       @ [CHR 0x27] @ '' for TCP session: '' @ error_code_render E error;
                (ev, c') = stop c;
                err = Tcp_transport_resolve_error os
            in Some ([Stats_error RESOLVE_ERROR] @ ev @ [Transport_error err], c')))
      else Some ([], c))"

subsection \<open>Sequences of calls on one client\<close>

text \<open>
  What the parent, the link and the resolver can do to a client, one call at a time. A
  send is made on a buffer of the caller's own, which sits alone in the store for the
  call. \<open>run\<close> makes the calls in order and collects the events; it is \<open>None\<close> only
  where \<open>post_start_priv\<close> is.
\<close>

datatype op =
    Start
  | Stop
  | Transport_send buffer
  | Transport_send_const buffer
  | Tcp_read_handler buffer
  | Tcp_error_handler string
  | Post_start error_code "endpoint list"

fun step :: "('l, 'ip) collab \<Rightarrow> op \<Rightarrow> 'l client \<Rightarrow> (event list \<times> 'l client) option" where
  "step E Start c = Some (start c)"
| "step E Stop c = Some (stop c)"
| "step E (Transport_send b) c =
     (let (r, ev, c', h') = transport_send E 0 c [b] in Some (ev, c'))"
| "step E (Transport_send_const b) c =
     (let (r, ev, c', h') = transport_send_const E 0 c [b] in Some (ev, c'))"
| "step E (Tcp_read_handler b) c = Some (tcp_read_handler b c)"
| "step E (Tcp_error_handler error) c = Some (tcp_error_handler error c)"
| "step E (Post_start error endpoint_iterator) c = post_start_priv E error endpoint_iterator c"

fun run :: "('l, 'ip) collab \<Rightarrow> op list \<Rightarrow> 'l client \<Rightarrow> (event list \<times> 'l client) option" where
  "run E [] c = Some ([], c)"
| "run E (x # xs) c =
     (case step E x c of
        None \<Rightarrow> None
      | Some (ev, c') \<Rightarrow>
          (case run E xs c' of
             None \<Rightarrow> None
           | Some (ev', c'') \<Rightarrow> Some (ev @ ev', c'')))"

fun resolves_ok :: "op \<Rightarrow> bool" where
  "resolves_ok (Post_start error endpoint_iterator) = (\<not> ec_failed error)"
| "resolves_ok x = False"

subsection \<open>An instance of the collaborators\<close>

text \<open>
  Modelled from the spec: the link of \<open>openvpn/transport/tcplink.hpp\<close> is not among the
  sources. Section 4.3 has \<open>enqueue(buf)\<close> append to the FIFO if its length is below the
  bound and fail otherwise; an accepted buffer passes to the link (section 5), which
  leaves the caller's buffer empty.
\<close>

record spec_link =
  sl_args :: link_args
  sl_queue :: "buffer list"
  sl_started :: bool

definition spec_link_new :: "link_args \<Rightarrow> spec_link" where
  "spec_link_new args = \<lparr>sl_args = args, sl_queue = [], sl_started = False\<rparr>"

definition spec_link_start :: "spec_link \<Rightarrow> spec_link" where
  "spec_link_start l = l\<lparr>sl_started := True\<rparr>"

text \<open>
  Modelled from the spec: \<open>Link::send\<close> is not among the sources. It is the
  \<open>enqueue\<close> of section 4.3, bounded by \<open>send_queue_max_size\<close>; a rejected buffer stays
  with the caller.
\<close>

definition spec_link_send :: "spec_link \<Rightarrow> buffer \<Rightarrow> bool \<times> spec_link \<times> buffer" where
  "spec_link_send l buf =
     (if length (sl_queue l) < la_send_queue_max_size (sl_args l)
      then (True, l\<lparr>sl_queue := sl_queue l @ [buf]\<rparr>, [])
      else (False, l, buf))"

text \<open>Decimal and hexadecimal numerals, for the stream output of the boost types.\<close>

fun show_nat :: "nat \<Rightarrow> string" where
  "show_nat n =
     (if n < 10 then [''0123456789'' ! n]
      else show_nat (n div 10) @ [''0123456789'' ! (n mod 10)])"

definition show_int :: "int \<Rightarrow> string" where
  "show_int i = (if i < 0 then ''-'' @ show_nat (nat (- i)) else show_nat (nat i))"

fun show_hex :: "nat \<Rightarrow> string" where
  "show_hex n =
     (if n < 16 then [''0123456789abcdef'' ! n]
      else show_hex (n div 16) @ [''0123456789abcdef'' ! (n mod 16)])"

text \<open>
  Modelled from the spec: section 6 gives the rendering of an endpoint as host:port.
  An IPv4 address is written as a dotted quad, an IPv6 address as its eight groups in
  brackets.
\<close>

definition show_address :: "asio_address \<Rightarrow> string" where
  "show_address a =
     (case a of
        Address_v4 w \<Rightarrow>
          (let n = unat w
           in show_nat (n div 16777216 mod 256) @ ''.'' @ show_nat (n div 65536 mod 256) @ ''.''
              @ show_nat (n div 256 mod 256) @ ''.'' @ show_nat (n mod 256))
      | Address_v6 w \<Rightarrow>
          (let n = unat w
           in ''['' @ concat (map (\<lambda>i. show_hex (n div 65536 ^ (7 - i) mod 65536) @ '':'') [0..<7])
              @ show_hex (n mod 65536) @ '']''))"

definition spec_endpoint_render :: "endpoint \<Rightarrow> string" where
  "spec_endpoint_render ep = show_address (ep_address ep) @ '':'' @ show_nat (unat (ep_port ep))"

text \<open>The stream output of a boost error code: the name of its category and its value.\<close>

definition spec_error_code_render :: "error_code \<Rightarrow> string" where
  "spec_error_code_render error = ec_category error @ '':'' @ show_int (ec_value error)"

definition spec_collab :: "(spec_link, asio_address) collab" where
  "spec_collab =
     \<lparr>link_new = spec_link_new, link_start = spec_link_start, link_send = spec_link_send,
      endpoint_render = spec_endpoint_render, error_code_render = spec_error_code_render,
      from_asio = id\<rparr>"

subsection \<open>Example values\<close>

definition example_config :: client_config where
  "example_config =
     \<lparr>server_host = ''vpn.example.com'', server_port = ''1194'',
      send_queue_max_size = 64, free_list_max_size = 8, frame = 1, stats = 2\<rparr>"

definition idle_client :: "spec_link client" where
  "idle_client = new_client_obj example_config 7"

definition ep_first :: endpoint where
  "ep_first = \<lparr>ep_address = Address_v4 167772161, ep_port = 1194\<rparr>"

definition ep_second :: endpoint where
  "ep_second = \<lparr>ep_address = Address_v4 167772162, ep_port = 1194\<rparr>"

definition ec_success :: error_code where
  "ec_success = \<lparr>ec_value = 0, ec_category = ''system''\<rparr>"

definition ec_host_not_found :: error_code where
  "ec_host_not_found = \<lparr>ec_value = 1, ec_category = ''asio.netdb''\<rparr>"

definition example_args :: link_args where
  "example_args =
     \<lparr>la_endpoint = ep_first, la_send_queue_max_size = 64, la_free_list_max_size = 8,
      la_frame = 1, la_stats = 2\<rparr>"

definition example_link :: spec_link where
  "example_link = \<lparr>sl_args = example_args, sl_queue = [], sl_started = True\<rparr>"

text \<open>
  The example client after \<open>start()\<close>, its resolution in flight: the members are those
  of the new client (\<open>halt\<close> was false already).
\<close>

definition resolving_client :: "spec_link client" where
  "resolving_client = idle_client"

definition established_client :: "spec_link client" where
  "established_client =
     \<lparr>config = example_config, parent = 7, impl = Some example_link,
      server_endpoint = ep_first, halt = False\<rparr>"

definition stopped_client :: "spec_link client" where
  "stopped_client =
     \<lparr>config = example_config, parent = 7, impl = None,
      server_endpoint = ep_first, halt = True\<rparr>"

definition packet :: buffer where
  "packet = [1, 2, 3]"

subsection \<open>Predicates on events\<close>

definition is_resolve_event :: "event \<Rightarrow> bool" where
  "is_resolve_event e = (case e of Resolver_async_resolve h p \<Rightarrow> True | _ \<Rightarrow> False)"

definition is_link_new :: "event \<Rightarrow> bool" where
  "is_link_new e = (case e of Link_new a \<Rightarrow> True | _ \<Rightarrow> False)"

text \<open>The link arguments a client with configuration \<open>cfg\<close> passes for endpoint \<open>ep\<close>.\<close>

definition link_args_of :: "client_config \<Rightarrow> endpoint \<Rightarrow> link_args" where
  "link_args_of cfg ep =
     \<lparr>la_endpoint = ep, la_send_queue_max_size = send_queue_max_size cfg,
      la_free_list_max_size = free_list_max_size cfg, la_frame = frame cfg,
      la_stats = stats cfg\<rparr>"

section \<open>Properties\<close>

subsection \<open>Facts about stop and about runs\<close>

lemma stop_priv_state: "snd (stop_priv c) = c\<lparr>impl := None, halt := True\<rparr>"
  by (cases "impl c") (simp_all add: stop_priv_def)

lemma stop_priv_stopped:
  "halt c \<Longrightarrow> impl c = None \<Longrightarrow> stop_priv c = ([Resolver_cancel], c)"
  by (simp add: stop_priv_def)

lemma step_stopped:
  assumes "halt c" and "impl c = None" and "x \<noteq> Start"
  shows "map_option snd (step E x c) = Some c"
  using assms
  by (cases x)
     (simp_all add: stop_def stop_priv_stopped transport_send_def send_def
        transport_send_const_def send_const_def tcp_read_handler_def tcp_error_handler_def
        post_start_priv_def)

lemma run_stopped:
  assumes "halt c" and "impl c = None" and "Start \<notin> set xs"
  shows "map_option snd (run E xs c) = Some c"
  using assms(3)
proof (induction xs)
  case Nil
  show ?case by simp
next
  case (Cons x xs)
  from Cons.prems have "x \<noteq> Start" by auto
  with step_stopped [OF assms(1,2)] have "map_option snd (step E x c) = Some c" by blast
  then obtain ev where s: "step E x c = Some (ev, c)" by (cases "step E x c") auto
  from Cons have "map_option snd (run E xs c) = Some c" by simp
  then obtain ev' where r: "run E xs c = Some (ev', c)" by (cases "run E xs c") auto
  show ?case by (simp add: s r)
qed

lemma step_keeps_endpoint:
  assumes "\<not> resolves_ok x"
  shows "map_option (server_endpoint \<circ> snd) (step E x c) = Some (server_endpoint c)"
proof (cases x)
  case (Transport_send b)
  then show ?thesis
    by (cases "impl c")
       (simp_all add: transport_send_def send_def impl_send_def split: prod.splits)
next
  case (Transport_send_const b)
  then show ?thesis
    by (cases "impl c")
       (simp_all add: transport_send_const_def send_const_def impl_send_def split: prod.splits)
next
  case (Post_start error it)
  with assms have "ec_failed error" by simp
  with Post_start show ?thesis
    by (cases "impl c") (simp_all add: post_start_priv_def stop_def stop_priv_def)
qed (cases "impl c"; simp add: start_def stop_def stop_priv_def tcp_read_handler_def
       tcp_error_handler_def)+

lemma run_keeps_endpoint:
  assumes "list_all (\<lambda>x. \<not> resolves_ok x) xs"
  shows "map_option (server_endpoint \<circ> snd) (run E xs c) = Some (server_endpoint c)"
  using assms
proof (induction xs arbitrary: c)
  case Nil
  show ?case by simp
next
  case (Cons x xs)
  then have "\<not> resolves_ok x" by simp
  from step_keeps_endpoint [OF this, of E c]
  obtain ev c' where s: "step E x c = Some (ev, c')" and e: "server_endpoint c' = server_endpoint c"
    by (cases "step E x c") auto
  from Cons have "map_option (server_endpoint \<circ> snd) (run E xs c') = Some (server_endpoint c')"
    by simp
  then obtain ev' c'' where r: "run E xs c' = Some (ev', c'')"
      and e': "server_endpoint c'' = server_endpoint c'"
    by (cases "run E xs c'") auto
  show ?case by (simp add: s r e e')
qed

lemma stop_state: "snd (stop c) = c\<lparr>impl := None, halt := True\<rparr>"
  by (simp add: stop_def stop_priv_state)

subsection \<open>Evaluating the example instance\<close>

lemma render_host_not_found: "spec_error_code_render ec_host_not_found = ''asio.netdb:1''"
  by (simp add: spec_error_code_render_def ec_host_not_found_def show_int_def)

lemma render_default: "spec_endpoint_render default_endpoint = ''0.0.0.0:0''"
  by (simp add: spec_endpoint_render_def default_endpoint_def show_address_def)

lemma render_first: "spec_endpoint_render ep_first = ''10.0.0.1:1194''"
  by (simp add: spec_endpoint_render_def ep_first_def show_address_def)

lemma established_reachable:
  "map_option snd (run spec_collab [Start, Post_start ec_success [ep_first, ep_second]] idle_client)
     = Some established_client"
  by (simp add: start_def post_start_priv_def idle_client_def new_client_obj_def
        established_client_def ec_failed_def ec_success_def spec_collab_def spec_link_new_def
        spec_link_start_def example_link_def example_args_def example_config_def Let_def)

subsection \<open>Claim C1\<close>

text \<open>
  C1, as the code has it. On a client that has been stopped (halt flag set, no link) every
  completion callback leaves the client state as it is. Only the completion of the
  resolution checks the halt flag: it returns at once and calls no collaborator. The
  link's receive callback has no such check and still hands the packet to the parent;
  the link's error callback has none either: it stops the client again and still reports
  a transport error to the parent.
\<close>

theorem halted_completions:
  assumes "halt c" and "impl c = None"
  shows "post_start_priv E error endpoint_iterator c = Some ([], c)
       \<and> tcp_read_handler buf c = ([Transport_recv buf], c)
       \<and> tcp_error_handler cause c =
           ([Resolver_cancel,
             Transport_error (Tcp_transport_error
               (''Transport error on '' @ [CHR 0x27] @ server_host (config c) @ '': '' @ cause))],
            c)"
  using assms
  by (simp add: post_start_priv_def tcp_read_handler_def tcp_error_handler_def stop_def
        stop_priv_stopped)

text \<open>A stopped client of the example instance.\<close>

theorem halted_completions_witness:
  "halt stopped_client \<and> impl stopped_client = None
   \<and> post_start_priv spec_collab ec_success [ep_second] stopped_client = Some ([], stopped_client)
   \<and> post_start_priv spec_collab ec_host_not_found [] stopped_client = Some ([], stopped_client)
   \<and> tcp_read_handler packet stopped_client = ([Transport_recv packet], stopped_client)"
proof -
  have h: "halt stopped_client" and i: "impl stopped_client = None"
    by (simp_all add: stopped_client_def)
  from halted_completions [OF h i, of spec_collab ec_success "[ep_second]" packet "''reset''"]
       halted_completions [OF h i, of spec_collab ec_host_not_found "[]" packet "''reset''"]
       h i
  show ?thesis by simp
qed

text \<open>After \<open>stop()\<close> the receive callback still reaches the parent, and so does the error callback.\<close>

theorem read_after_stop_counterexample:
  "snd (stop established_client) = stopped_client
   \<and> halt stopped_client
   \<and> filter is_parent_event (fst (tcp_read_handler packet stopped_client)) = [Transport_recv packet]
   \<and> filter is_parent_event (fst (tcp_error_handler ''reset'' stopped_client)) =
       [Transport_error (Tcp_transport_error
          (''Transport error on '' @ [CHR 0x27] @ ''vpn.example.com: reset''))]"
  by (simp add: stop_def stop_priv_def established_client_def stopped_client_def
        tcp_read_handler_def tcp_error_handler_def is_parent_event_def example_config_def)

subsection \<open>Claim C2\<close>

text \<open>
  C2, as the code has it. \<open>start()\<close> looks at the link only. With a link present it is a
  no-op: no resolution is issued and the state is unchanged. With no link, whether or
  not a resolution is in flight, it clears the halt flag and issues an asynchronous
  resolution of the configured host and port.
\<close>

theorem start_reentrant:
  "(impl c \<noteq> None \<longrightarrow> start c = ([], c))
   \<and> (impl c = None \<longrightarrow>
        start c = ([Resolver_async_resolve (server_host (config c)) (server_port (config c))],
                   c\<lparr>halt := False\<rparr>))"
  by (simp add: start_def)

text \<open>An established client, and a client that has no link.\<close>

theorem start_reentrant_witness:
  "impl established_client \<noteq> None \<and> start established_client = ([], established_client)
   \<and> impl idle_client = None
   \<and> start idle_client = ([Resolver_async_resolve ''vpn.example.com'' ''1194''], idle_client)"
  using start_reentrant [of established_client] start_reentrant [of idle_client]
  by (simp add: established_client_def idle_client_def new_client_obj_def example_config_def)

text \<open>A second \<open>start()\<close> right after the first, before any completion, issues a second resolution.\<close>

theorem start_in_flight_counterexample:
  "snd (start idle_client) = resolving_client
   \<and> impl resolving_client = None
   \<and> fst (start resolving_client) = [Resolver_async_resolve ''vpn.example.com'' ''1194'']"
  by (simp add: start_def idle_client_def resolving_client_def new_client_obj_def
        example_config_def)

subsection \<open>Claim C3\<close>

text \<open>
  C3, as the code has it. After \<open>stop()\<close> the halt flag is set and there is no link, and
  every sequence of calls without \<open>start()\<close> (further stops, sends, the link's callbacks,
  completions of the resolution) ends in that same client state. \<open>start()\<close> on the
  stopped client clears the halt flag and issues a new resolution.
\<close>

theorem stopped_terminal_except_start:
  assumes "Start \<notin> set xs"
  shows "halt (snd (stop c)) \<and> impl (snd (stop c)) = None
       \<and> map_option snd (run E xs (snd (stop c))) = Some (snd (stop c))
       \<and> start (snd (stop c)) =
           ([Resolver_async_resolve (server_host (config c)) (server_port (config c))],
            c\<lparr>impl := None, halt := False\<rparr>)"
proof -
  have h: "halt (snd (stop c))" and i: "impl (snd (stop c)) = None"
    by (simp_all add: stop_state)
  have r: "map_option snd (run E xs (snd (stop c))) = Some (snd (stop c))"
    by (rule run_stopped [OF h i assms])
  have s: "start (snd (stop c)) =
           ([Resolver_async_resolve (server_host (config c)) (server_port (config c))],
            c\<lparr>impl := None, halt := False\<rparr>)"
    by (simp add: start_def stop_state)
  from h i r s show ?thesis by blast
qed

text \<open>A sequence of every call but \<open>start()\<close> on the stopped example client.\<close>

theorem stopped_terminal_except_start_witness:
  "Start \<notin> set [Stop, Transport_send packet, Transport_send_const packet,
                 Tcp_read_handler packet, Tcp_error_handler ''reset'',
                 Post_start ec_success [ep_second], Post_start ec_host_not_found []]
   \<and> map_option snd
        (run spec_collab [Stop, Transport_send packet, Transport_send_const packet,
                 Tcp_read_handler packet, Tcp_error_handler ''reset'',
                 Post_start ec_success [ep_second], Post_start ec_host_not_found []]
           (snd (stop established_client))) = Some stopped_client"
proof -
  have s: "snd (stop established_client) = stopped_client"
    by (simp add: stop_state established_client_def stopped_client_def)
  have n: "Start \<notin> set [Stop, Transport_send packet, Transport_send_const packet,
                 Tcp_read_handler packet, Tcp_error_handler ''reset'',
                 Post_start ec_success [ep_second], Post_start ec_host_not_found []]"
    by simp
  from stopped_terminal_except_start [OF n, of established_client spec_collab]
  have "map_option snd
        (run spec_collab [Stop, Transport_send packet, Transport_send_const packet,
                 Tcp_read_handler packet, Tcp_error_handler ''reset'',
                 Post_start ec_success [ep_second], Post_start ec_host_not_found []]
           (snd (stop established_client))) = Some (snd (stop established_client))"
    by blast
  with n s show ?thesis by simp
qed

text \<open>\<open>start()\<close> after \<open>stop()\<close> clears the halt flag, and the next successful resolution establishes the client again.\<close>

theorem start_after_stop_counterexample:
  "halt (snd (stop established_client))
   \<and> \<not> halt (snd (start (snd (stop established_client))))
   \<and> map_option snd
        (run spec_collab [Stop, Start, Post_start ec_success [ep_first, ep_second]]
           established_client) = Some established_client"
  by (simp add: stop_def stop_priv_def start_def established_client_def post_start_priv_def
        ec_failed_def ec_success_def spec_collab_def spec_link_new_def spec_link_start_def
        example_link_def example_args_def example_config_def Let_def)

subsection \<open>Claim C4\<close>

text \<open>
  C4. When the resolution completes with an error on a client that is not halted, the
  calls made are, in order: one \<open>RESOLVE_ERROR\<close> on the stats sink, the teardown of
  \<open>stop()\<close>, and one \<open>tcp_transport_resolve_error\<close> to the parent whose message holds
  the configured host and the rendered error code. The client ends with no link and the
  halt flag set, and no resolution is issued again.
\<close>

theorem resolve_failure:
  assumes "\<not> halt c" and "ec_failed error"
  shows "\<exists>ev. post_start_priv E error endpoint_iterator c = Some (ev, c\<lparr>impl := None, halt := True\<rparr>)
       \<and> ev = Stats_error RESOLVE_ERROR
              # (case impl c of Some l \<Rightarrow> [Link_stop, Link_release] | None \<Rightarrow> [])
              @ [Resolver_cancel]
              @ [Transport_error (Tcp_transport_resolve_error
                   (''DNS resolve error on '' @ [CHR 0x27] @ server_host (config c) @ [CHR 0x27]
                      @ '' for TCP session: '' @ error_code_render E error))]
       \<and> filter (\<lambda>e. e = Stats_error RESOLVE_ERROR) ev = [Stats_error RESOLVE_ERROR]
       \<and> filter is_parent_event ev =
           [Transport_error (Tcp_transport_resolve_error
                   (''DNS resolve error on '' @ [CHR 0x27] @ server_host (config c) @ [CHR 0x27]
                      @ '' for TCP session: '' @ error_code_render E error))]
       \<and> filter is_resolve_event ev = []"
  using assms
  by (cases "impl c")
     (simp_all add: post_start_priv_def stop_def stop_priv_def is_parent_event_def
        is_resolve_event_def)

text \<open>Host not found, on the example client after \<open>start()\<close>.\<close>

theorem resolve_failure_witness:
  "\<not> halt resolving_client \<and> ec_failed ec_host_not_found
   \<and> post_start_priv spec_collab ec_host_not_found [] resolving_client =
       Some ([Stats_error RESOLVE_ERROR, Resolver_cancel,
              Transport_error (Tcp_transport_resolve_error
                (''DNS resolve error on '' @ [CHR 0x27] @ ''vpn.example.com'' @ [CHR 0x27]
                   @ '' for TCP session: asio.netdb:1''))],
             resolving_client\<lparr>halt := True\<rparr>)"
proof -
  have h: "\<not> halt resolving_client" by (simp add: resolving_client_def idle_client_def new_client_obj_def)
  have f: "ec_failed ec_host_not_found" by (simp add: ec_failed_def ec_host_not_found_def)
  have i: "impl resolving_client = None" by (simp add: resolving_client_def idle_client_def new_client_obj_def)
  have k: "server_host (config resolving_client) = ''vpn.example.com''"
    by (simp add: resolving_client_def idle_client_def new_client_obj_def example_config_def)
  have r: "error_code_render spec_collab ec_host_not_found = ''asio.netdb:1''"
    by (simp add: spec_collab_def render_host_not_found)
  have u: "resolving_client\<lparr>impl := None, halt := True\<rparr> = resolving_client\<lparr>halt := True\<rparr>"
    by (simp add: resolving_client_def idle_client_def new_client_obj_def)
  from resolve_failure [OF h f, of spec_collab "[]"] h f
  show ?thesis by (simp add: i k r u)
qed

subsection \<open>Claim C5\<close>

text \<open>
  C5, as the code has it. When the link of an established client reports an error, the
  link is stopped and released and the resolver cancelled before the one
  \<open>tcp_transport_error\<close>, whose message holds the configured host and the cause, goes to
  the parent. The client is left stopped, and after any sequence of calls without
  \<open>start()\<close> it is still in that state, where \<open>transport_send\<close> returns false.
\<close>

theorem link_error_stops_client:
  assumes "impl c = Some l" and "Start \<notin> set xs"
  shows "tcp_error_handler cause c =
           ([Link_stop, Link_release, Resolver_cancel,
             Transport_error (Tcp_transport_error
               (''Transport error on '' @ [CHR 0x27] @ server_host (config c) @ '': '' @ cause))],
            c\<lparr>impl := None, halt := True\<rparr>)
       \<and> map_option snd (run E xs (snd (tcp_error_handler cause c))) =
           Some (c\<lparr>impl := None, halt := True\<rparr>)
       \<and> transport_send E buf (c\<lparr>impl := None, halt := True\<rparr>) h =
           (False, [], c\<lparr>impl := None, halt := True\<rparr>, h)"
proof -
  let ?s = "c\<lparr>impl := None, halt := True\<rparr>"
  have e: "tcp_error_handler cause c =
           ([Link_stop, Link_release, Resolver_cancel,
             Transport_error (Tcp_transport_error
               (''Transport error on '' @ [CHR 0x27] @ server_host (config c) @ '': '' @ cause))],
            ?s)"
    using assms(1) by (simp add: tcp_error_handler_def stop_def stop_priv_def)
  have "map_option snd (run E xs ?s) = Some ?s"
    by (rule run_stopped) (simp_all add: assms(2))
  then have r: "map_option snd (run E xs (snd (tcp_error_handler cause c))) = Some ?s"
    by (simp only: e snd_conv)
  have t: "transport_send E buf ?s h = (False, [], ?s, h)"
    by (simp add: transport_send_def send_def)
  from e r t show ?thesis by blast
qed

text \<open>A connection reset on the established example client.\<close>

theorem link_error_stops_client_witness:
  "impl established_client = Some example_link
   \<and> Start \<notin> set [Transport_send packet, Stop, Tcp_read_handler packet]
   \<and> tcp_error_handler ''reset'' established_client =
       ([Link_stop, Link_release, Resolver_cancel,
         Transport_error (Tcp_transport_error
           (''Transport error on '' @ [CHR 0x27] @ ''vpn.example.com: reset''))],
        stopped_client)
   \<and> map_option snd
        (run spec_collab [Transport_send packet, Stop, Tcp_read_handler packet]
           (snd (tcp_error_handler ''reset'' established_client))) = Some stopped_client
   \<and> transport_send spec_collab 0 stopped_client [packet] = (False, [], stopped_client, [packet])"
proof -
  have i: "impl established_client = Some example_link" by (simp add: established_client_def)
  have n: "Start \<notin> set [Transport_send packet, Stop, Tcp_read_handler packet]" by simp
  have s: "established_client\<lparr>impl := None, halt := True\<rparr> = stopped_client"
    by (simp add: established_client_def stopped_client_def)
  have k: "server_host (config established_client) = ''vpn.example.com''"
    by (simp add: established_client_def example_config_def)
  note t = link_error_stops_client [OF i n, of "''reset''" spec_collab 0 "[packet]"]
  from t have a: "tcp_error_handler ''reset'' established_client =
       ([Link_stop, Link_release, Resolver_cancel,
         Transport_error (Tcp_transport_error
           (''Transport error on '' @ [CHR 0x27] @ ''vpn.example.com: reset''))],
        stopped_client)"
    by (simp add: s k)
  note u = t [unfolded s]
  have b: "map_option snd
        (run spec_collab [Transport_send packet, Stop, Tcp_read_handler packet]
           (snd (tcp_error_handler ''reset'' established_client))) = Some stopped_client"
    by (rule conjunct1 [OF conjunct2 [OF u]])
  have c: "transport_send spec_collab 0 stopped_client [packet] =
       (False, [], stopped_client, [packet])"
    by (rule conjunct2 [OF conjunct2 [OF u]])
  from i n a b c show ?thesis by blast
qed

text \<open>After the error, \<open>start()\<close> and a successful resolution attach a new link, and a send is accepted again.\<close>

theorem send_after_restart_counterexample:
  "snd (tcp_error_handler ''reset'' established_client) = stopped_client
   \<and> map_option snd
        (run spec_collab [Start, Post_start ec_success [ep_first, ep_second]] stopped_client) =
       Some established_client
   \<and> fst (transport_send spec_collab 0 established_client [packet]) = True"
  by (simp add: tcp_error_handler_def stop_def stop_priv_def start_def established_client_def
        stopped_client_def post_start_priv_def transport_send_def send_def impl_send_def
        ec_failed_def ec_success_def spec_collab_def spec_link_new_def spec_link_start_def
        spec_link_send_def example_link_def example_args_def example_config_def Let_def)

subsection \<open>Claim C6\<close>

text \<open>
  C6. A second \<open>stop()\<close> leaves the state of the first and only cancels the resolver
  again; the destructor runs the same \<open>stop_\<close>. Neither \<open>stop()\<close> twice nor \<open>stop()\<close>
  followed by destruction calls the parent, and the link is stopped and released by the
  first call alone, once if it was there.
\<close>

theorem stop_idempotent:
  "snd (stop (snd (stop c))) = snd (stop c)
   \<and> fst (stop (snd (stop c))) = [Resolver_cancel]
   \<and> destroy c = stop c
   \<and> destroy (snd (stop c)) = ([Resolver_cancel], snd (stop c))
   \<and> filter is_parent_event (fst (stop c) @ fst (stop (snd (stop c)))) = []
   \<and> filter is_parent_event (fst (stop c) @ fst (destroy (snd (stop c)))) = []
   \<and> filter (\<lambda>e. e = Link_stop \<or> e = Link_release) (fst (stop c) @ fst (stop (snd (stop c))))
       = filter (\<lambda>e. e = Link_stop \<or> e = Link_release) (fst (stop c))
   \<and> filter (\<lambda>e. e = Link_stop \<or> e = Link_release) (fst (stop c) @ fst (destroy (snd (stop c))))
       = filter (\<lambda>e. e = Link_stop \<or> e = Link_release) (fst (stop c))
   \<and> filter (\<lambda>e. e = Link_stop \<or> e = Link_release) (fst (stop c))
       = (case impl c of Some l \<Rightarrow> [Link_stop, Link_release] | None \<Rightarrow> [])"
  by (cases "impl c") (simp_all add: stop_def destroy_def stop_priv_def is_parent_event_def)

subsection \<open>Claim C7\<close>

text \<open>
  C7. On a client with no link \<open>transport_send\<close> and \<open>transport_send_const\<close> return
  false, call no collaborator, and leave the client and the store of buffers unchanged.
  A new client, a client started but not yet connected, and a stopped client have no link.
\<close>

theorem send_without_link:
  assumes "impl c = None"
  shows "transport_send E buf c h = (False, [], c, h)
       \<and> transport_send_const E buf c h = (False, [], c, h)
       \<and> impl (new_client_obj cfg p :: 'l client) = None
       \<and> impl (snd (start (new_client_obj cfg p :: 'l client))) = None
       \<and> impl (snd (stop c)) = None"
  using assms
  by (simp add: transport_send_def send_def transport_send_const_def send_const_def
        new_client_obj_def start_def stop_state)

text \<open>A client that was never started.\<close>

theorem send_without_link_witness:
  "impl idle_client = None
   \<and> transport_send spec_collab 0 idle_client [packet] = (False, [], idle_client, [packet])
   \<and> transport_send_const spec_collab 0 idle_client [packet] = (False, [], idle_client, [packet])"
proof -
  have i: "impl idle_client = None" by (simp add: idle_client_def new_client_obj_def)
  from send_without_link [OF i, of spec_collab 0 "[packet]"] i show ?thesis by blast
qed

subsection \<open>Claim C8\<close>

text \<open>
  C8. When the resolution completes without error on a client that is not halted, the
  first endpoint of the list becomes \<open>server_endpoint\<close>, one link is constructed for it
  with the bounds of the configuration and started, and then the parent is told of the
  connection. The rest of the list does not matter.
\<close>

theorem resolve_success_first_endpoint:
  assumes "\<not> halt c" and "\<not> ec_failed error"
  shows "\<exists>ev. post_start_priv E error (ep # rest) c =
           Some (ev, c\<lparr>server_endpoint := ep,
                       impl := Some (link_start E (link_new E (link_args_of (config c) ep)))\<rparr>)
       \<and> ev = Link_new (link_args_of (config c) ep)
              # (case impl c of Some old \<Rightarrow> [Link_release] | None \<Rightarrow> [])
              @ [Link_start, Transport_connected]
       \<and> filter is_link_new ev = [Link_new (link_args_of (config c) ep)]
       \<and> filter (\<lambda>e. e = Link_start) ev = [Link_start]
       \<and> filter is_parent_event ev = [Transport_connected]
       \<and> post_start_priv E error (ep # rest) c = post_start_priv E error [ep] c"
  using assms
  by (cases "impl c")
     (simp_all add: post_start_priv_def link_args_of_def Let_def is_link_new_def
        is_parent_event_def)

text \<open>Two endpoints resolved for the example client after \<open>start()\<close>.\<close>

theorem resolve_success_first_endpoint_witness:
  "\<not> halt resolving_client \<and> \<not> ec_failed ec_success
   \<and> post_start_priv spec_collab ec_success [ep_first, ep_second] resolving_client =
       Some ([Link_new example_args, Link_start, Transport_connected], established_client)
   \<and> post_start_priv spec_collab ec_success [ep_first, ep_second] resolving_client =
       post_start_priv spec_collab ec_success [ep_first] resolving_client"
proof -
  have h: "\<not> halt resolving_client" by (simp add: resolving_client_def idle_client_def new_client_obj_def)
  have f: "\<not> ec_failed ec_success" by (simp add: ec_failed_def ec_success_def)
  have i: "impl resolving_client = None" by (simp add: resolving_client_def idle_client_def new_client_obj_def)
  have a: "link_args_of (config resolving_client) ep_first = example_args"
    by (simp add: link_args_of_def resolving_client_def idle_client_def new_client_obj_def example_config_def
          example_args_def)
  have l: "link_start spec_collab (link_new spec_collab example_args) = example_link"
    by (simp add: spec_collab_def spec_link_new_def spec_link_start_def example_link_def)
  have e: "resolving_client\<lparr>server_endpoint := ep_first, impl := Some example_link\<rparr>
             = established_client"
    by (simp add: resolving_client_def idle_client_def new_client_obj_def established_client_def)
  from resolve_success_first_endpoint [OF h f, of spec_collab ep_first "[ep_second]"]
  obtain ev where p: "post_start_priv spec_collab ec_success [ep_first, ep_second] resolving_client =
           Some (ev, resolving_client\<lparr>server_endpoint := ep_first,
                       impl := Some (link_start spec_collab
                                (link_new spec_collab (link_args_of (config resolving_client) ep_first)))\<rparr>)"
      and v: "ev = Link_new (link_args_of (config resolving_client) ep_first)
              # (case impl resolving_client of Some old \<Rightarrow> [Link_release] | None \<Rightarrow> [])
              @ [Link_start, Transport_connected]"
      and q: "post_start_priv spec_collab ec_success [ep_first, ep_second] resolving_client =
              post_start_priv spec_collab ec_success [ep_first] resolving_client"
    by blast
  from v have v': "ev = [Link_new example_args, Link_start, Transport_connected]"
    by (simp add: i a)
  from p have p': "post_start_priv spec_collab ec_success [ep_first, ep_second] resolving_client =
       Some ([Link_new example_args, Link_start, Transport_connected], established_client)"
    by (simp only: v' a l e)
  from h f p' q show ?thesis by blast
qed

subsection \<open>Claim C9\<close>

text \<open>
  C9. \<open>transport_send_const\<close> returns the store of buffers as it found it, so the
  caller's buffer is unchanged, with or without a link and whatever the link answers:
  the link is handed a copy in a buffer of its own.
\<close>

theorem send_const_keeps_buffer:
  "transport_send_const E cbuf c h =
     (case impl c of
        Some l \<Rightarrow>
          (fst (link_send E l (h ! cbuf)), [Link_send (h ! cbuf)],
           c\<lparr>impl := Some (fst (snd (link_send E l (h ! cbuf))))\<rparr>, h)
      | None \<Rightarrow> (False, [], c, h))
   \<and> snd (snd (snd (transport_send_const E cbuf c h))) = h
   \<and> snd (snd (snd (transport_send_const E cbuf c h))) ! cbuf = h ! cbuf"
  by (cases "impl c")
     (simp_all add: transport_send_const_def send_const_def impl_send_def Let_def
        split: prod.splits)

text \<open>In the example instance an accepted \<open>transport_send\<close> empties the caller's buffer, while \<open>transport_send_const\<close> leaves it.\<close>

lemma send_moves_buffer_example:
  "transport_send spec_collab 0 established_client [packet] =
     (True, [Link_send packet],
      established_client\<lparr>impl := Some (example_link\<lparr>sl_queue := [packet]\<rparr>)\<rparr>, [[]])
   \<and> transport_send_const spec_collab 0 established_client [packet] =
     (True, [Link_send packet],
      established_client\<lparr>impl := Some (example_link\<lparr>sl_queue := [packet]\<rparr>)\<rparr>, [packet])"
  by (simp add: transport_send_def send_def transport_send_const_def send_const_def
        impl_send_def established_client_def spec_collab_def spec_link_send_def example_link_def
        example_args_def Let_def)

subsection \<open>Claim C10\<close>

text \<open>
  C10. \<open>stop()\<close> changes the link pointer and the halt flag only, so both accessors of
  the endpoint answer as before. No call other than a resolution completing without
  error changes \<open>server_endpoint\<close>; on a new client it is the default-constructed
  endpoint, and that is what both accessors report until then.
\<close>

theorem stop_keeps_endpoint:
  fixes E :: "('l, 'ip) collab"
  assumes "list_all (\<lambda>x. \<not> resolves_ok x) xs"
  shows "snd (stop c) = c\<lparr>impl := None, halt := True\<rparr>
       \<and> server_endpoint_render E (snd (stop c)) = server_endpoint_render E c
       \<and> server_endpoint_addr E (snd (stop c)) = server_endpoint_addr E c
       \<and> map_option (server_endpoint \<circ> snd) (run E xs c) = Some (server_endpoint c)
       \<and> server_endpoint (new_client_obj cfg p :: 'l client) = default_endpoint
       \<and> map_option (server_endpoint_render E \<circ> snd) (run E xs (new_client_obj cfg p)) =
           Some (''TCP '' @ endpoint_render E default_endpoint)
       \<and> map_option (server_endpoint_addr E \<circ> snd) (run E xs (new_client_obj cfg p)) =
           Some (from_asio E (Address_v4 0))"
proof -
  let ?n = "new_client_obj cfg p :: 'l client"
  have a: "snd (stop c) = c\<lparr>impl := None, halt := True\<rparr>" by (rule stop_state)
  have b: "server_endpoint_render E (snd (stop c)) = server_endpoint_render E c"
    by (simp add: a server_endpoint_render_def)
  have d: "server_endpoint_addr E (snd (stop c)) = server_endpoint_addr E c"
    by (simp add: a server_endpoint_addr_def)
  have e: "map_option (server_endpoint \<circ> snd) (run E xs c) = Some (server_endpoint c)"
    by (rule run_keeps_endpoint [OF assms])
  have f: "server_endpoint ?n = default_endpoint" by (simp add: new_client_obj_def)
  have "map_option (server_endpoint \<circ> snd) (run E xs ?n) = Some (server_endpoint ?n)"
    by (rule run_keeps_endpoint [OF assms])
  then obtain ev c' where r: "run E xs ?n = Some (ev, c')"
      and s: "server_endpoint c' = default_endpoint"
    by (cases "run E xs ?n") (auto simp: f)
  have g: "map_option (server_endpoint_render E \<circ> snd) (run E xs ?n) =
           Some (''TCP '' @ endpoint_render E default_endpoint)"
    by (simp add: r s server_endpoint_render_def)
  have i: "map_option (server_endpoint_addr E \<circ> snd) (run E xs ?n) =
           Some (from_asio E (Address_v4 0))"
    by (simp add: r s server_endpoint_addr_def default_endpoint_def)
  from a b d e f g i show ?thesis by blast
qed

text \<open>A failed resolution, a restart, a send and a stop on a new client.\<close>

theorem stop_keeps_endpoint_witness:
  "list_all (\<lambda>x. \<not> resolves_ok x)
     [Start, Post_start ec_host_not_found [], Start, Transport_send packet, Stop]
   \<and> server_endpoint_render spec_collab (snd (stop established_client)) =
       server_endpoint_render spec_collab established_client
   \<and> map_option (server_endpoint_render spec_collab \<circ> snd)
       (run spec_collab [Start, Post_start ec_host_not_found [], Start, Transport_send packet, Stop]
          idle_client) = Some ''TCP 0.0.0.0:0''"
proof -
  have n: "list_all (\<lambda>x. \<not> resolves_ok x)
     [Start, Post_start ec_host_not_found [], Start, Transport_send packet, Stop]"
    by (simp add: ec_failed_def ec_host_not_found_def)
  have r: "endpoint_render spec_collab default_endpoint = ''0.0.0.0:0''"
    by (simp add: spec_collab_def render_default)
  note t = stop_keeps_endpoint [OF n, of established_client spec_collab example_config 7,
      unfolded r, folded idle_client_def]
  have a: "server_endpoint_render spec_collab (snd (stop established_client)) =
       server_endpoint_render spec_collab established_client"
    using t by blast
  have b: "map_option (server_endpoint_render spec_collab \<circ> snd)
       (run spec_collab [Start, Post_start ec_host_not_found [], Start, Transport_send packet, Stop]
          idle_client) = Some (''TCP '' @ ''0.0.0.0:0'')"
    using t by blast
  from n a b show ?thesis by simp
qed

end
